theory Spec2Isabelle
  imports Complex_Main "HOL-Library.Multiset"
begin

section \<open>JavaScript numbers\<close>

text \<open>
  The gallery computes with the \<^verbatim>\<open>number\<close> type of JavaScript. A number is modelled as a
  real, one of the two infinities, or NaN. Arithmetic on finite values is exact: the rounding
  and the overflow of IEEE doubles are not modelled, and neither is the sign of zero (a zero
  divisor is the positive zero). What is modelled is everything the layout code depends on:
  division by zero yields an infinity or NaN, NaN propagates through arithmetic and through
  \<^verbatim>\<open>Math.max\<close>/\<^verbatim>\<open>Math.min\<close>, compares false with everything, and is falsy.
\<close>

datatype number = Fin real | PInf | NInf | NaN

fun js_add :: "number \<Rightarrow> number \<Rightarrow> number" where
  "js_add NaN _ = NaN"
| "js_add _ NaN = NaN"
| "js_add PInf NInf = NaN"
| "js_add NInf PInf = NaN"
| "js_add PInf _ = PInf"
| "js_add _ PInf = PInf"
| "js_add NInf _ = NInf"
| "js_add _ NInf = NInf"
| "js_add (Fin a) (Fin b) = Fin (a + b)"

fun js_neg :: "number \<Rightarrow> number" where
  "js_neg (Fin a) = Fin (- a)"
| "js_neg PInf = NInf"
| "js_neg NInf = PInf"
| "js_neg NaN = NaN"

fun js_mul :: "number \<Rightarrow> number \<Rightarrow> number" where
  "js_mul NaN _ = NaN"
| "js_mul _ NaN = NaN"
| "js_mul (Fin a) (Fin b) = Fin (a * b)"
| "js_mul (Fin a) PInf = (if a = 0 then NaN else if 0 < a then PInf else NInf)"
| "js_mul (Fin a) NInf = (if a = 0 then NaN else if 0 < a then NInf else PInf)"
| "js_mul PInf (Fin b) = (if b = 0 then NaN else if 0 < b then PInf else NInf)"
| "js_mul NInf (Fin b) = (if b = 0 then NaN else if 0 < b then NInf else PInf)"
| "js_mul PInf PInf = PInf"
| "js_mul PInf NInf = NInf"
| "js_mul NInf PInf = NInf"
| "js_mul NInf NInf = PInf"

fun js_div :: "number \<Rightarrow> number \<Rightarrow> number" where
  "js_div NaN _ = NaN"
| "js_div _ NaN = NaN"
| "js_div (Fin a) (Fin b) =
     (if b = 0 then (if a = 0 then NaN else if 0 < a then PInf else NInf) else Fin (a / b))"
| "js_div (Fin a) PInf = Fin 0"
| "js_div (Fin a) NInf = Fin 0"
| "js_div PInf (Fin b) = (if 0 \<le> b then PInf else NInf)"
| "js_div NInf (Fin b) = (if 0 \<le> b then NInf else PInf)"
| "js_div PInf PInf = NaN"
| "js_div PInf NInf = NaN"
| "js_div NInf PInf = NaN"
| "js_div NInf NInf = NaN"

definition trunc :: "real \<Rightarrow> int" where
  "trunc r = (if 0 \<le> r then \<lfloor>r\<rfloor> else \<lceil>r\<rceil>)"

text \<open>The remainder operator \<^verbatim>\<open>%\<close>: the result has the sign of the dividend.\<close>

fun js_mod :: "number \<Rightarrow> number \<Rightarrow> number" where
  "js_mod (Fin a) (Fin b) = (if b = 0 then NaN else Fin (a - b * of_int (trunc (a / b))))"
| "js_mod (Fin a) PInf = Fin a"
| "js_mod (Fin a) NInf = Fin a"
| "js_mod _ _ = NaN"

instantiation number :: "{zero, plus, minus, times, inverse, modulo}"
begin

definition zero_number :: number where "zero_number = Fin 0"
definition plus_number :: "number \<Rightarrow> number \<Rightarrow> number" where "plus_number = js_add"
definition minus_number :: "number \<Rightarrow> number \<Rightarrow> number" where
  "minus_number a b = js_add a (js_neg b)"
definition times_number :: "number \<Rightarrow> number \<Rightarrow> number" where "times_number = js_mul"
definition divide_number :: "number \<Rightarrow> number \<Rightarrow> number" where "divide_number = js_div"
definition inverse_number :: "number \<Rightarrow> number" where "inverse_number = js_div (Fin 1)"
definition modulo_number :: "number \<Rightarrow> number \<Rightarrow> number" where "modulo_number = js_mod"

instance ..

end

lemmas js_arith =
  zero_number_def plus_number_def minus_number_def times_number_def divide_number_def
  modulo_number_def

fun Math_max :: "number \<Rightarrow> number \<Rightarrow> number" where
  "Math_max NaN _ = NaN"
| "Math_max _ NaN = NaN"
| "Math_max PInf _ = PInf"
| "Math_max _ PInf = PInf"
| "Math_max NInf b = b"
| "Math_max a NInf = a"
| "Math_max (Fin a) (Fin b) = Fin (max a b)"

fun Math_min :: "number \<Rightarrow> number \<Rightarrow> number" where
  "Math_min NaN _ = NaN"
| "Math_min _ NaN = NaN"
| "Math_min NInf _ = NInf"
| "Math_min _ NInf = NInf"
| "Math_min PInf b = b"
| "Math_min a PInf = a"
| "Math_min (Fin a) (Fin b) = Fin (min a b)"

text \<open>\<^verbatim>\<open>Math.round\<close> rounds a half towards positive infinity.\<close>

fun Math_round :: "number \<Rightarrow> number" where
  "Math_round (Fin r) = Fin (of_int \<lfloor>r + 1 / 2\<rfloor>)"
| "Math_round v = v"

fun Math_ceil :: "number \<Rightarrow> number" where
  "Math_ceil (Fin r) = Fin (of_int \<lceil>r\<rceil>)"
| "Math_ceil v = v"

fun Math_floor :: "number \<Rightarrow> number" where
  "Math_floor (Fin r) = Fin (of_int \<lfloor>r\<rfloor>)"
| "Math_floor v = v"

text \<open>The comparisons \<^verbatim>\<open>a > b\<close> and \<^verbatim>\<open>a >= b\<close>: false as soon as one side is NaN.\<close>

fun js_gt :: "number \<Rightarrow> number \<Rightarrow> bool" where
  "js_gt NaN _ = False"
| "js_gt _ NaN = False"
| "js_gt (Fin a) (Fin b) = (b < a)"
| "js_gt PInf PInf = False"
| "js_gt PInf _ = True"
| "js_gt NInf _ = False"
| "js_gt (Fin a) PInf = False"
| "js_gt (Fin a) NInf = True"

fun js_ge :: "number \<Rightarrow> number \<Rightarrow> bool" where
  "js_ge NaN _ = False"
| "js_ge _ NaN = False"
| "js_ge (Fin a) (Fin b) = (b \<le> a)"
| "js_ge PInf _ = True"
| "js_ge NInf NInf = True"
| "js_ge NInf _ = False"
| "js_ge (Fin a) PInf = False"
| "js_ge (Fin a) NInf = True"

text \<open>Truthiness of a number (\<^verbatim>\<open>!v\<close>) and the idiom \<^verbatim>\<open>v || 0\<close>.\<close>

fun falsy :: "number \<Rightarrow> bool" where
  "falsy (Fin r) = (r = 0)"
| "falsy NaN = True"
| "falsy PInf = False"
| "falsy NInf = False"

definition or_zero :: "number \<Rightarrow> number" where
  "or_zero v = (if falsy v then Fin 0 else v)"

text \<open>\<^verbatim>\<open>m.get(k) || 0\<close>, where a missing key reads as \<^verbatim>\<open>undefined\<close>.\<close>

fun or_zero_opt :: "number option \<Rightarrow> number" where
  "or_zero_opt None = Fin 0"
| "or_zero_opt (Some v) = or_zero v"

text \<open>\<^verbatim>\<open>v ?? 0\<close> on an optional number.\<close>

fun nullish_zero :: "number option \<Rightarrow> number" where
  "nullish_zero None = Fin 0"
| "nullish_zero (Some v) = v"

text \<open>\<^verbatim>\<open>typeof v === "number"\<close> on an optional number field.\<close>

fun isNumber :: "number option \<Rightarrow> bool" where
  "isNumber None = False"
| "isNumber (Some v) = True"

section \<open>Data model\<close>

text \<open>
  \<^verbatim>\<open>Item\<close>: the optional fields are options; the optional numeric fields hold any
  \<^verbatim>\<open>number\<close>, so \<^verbatim>\<open>typeof item.x === "number"\<close> is \<open>isNumber (item_x item)\<close>.
\<close>

record item =
  title :: string
  url :: string
  item_type :: "string option"
  item_x :: "number option"
  item_y :: "number option"
  item_w :: "number option"
  item_h :: "number option"
  autoplay :: "bool option"
  loop :: "bool option"
  muted :: "bool option"
  posterUrl :: "string option"

text \<open>A natural size \<^verbatim>\<open>{ w: number; h: number }\<close>, as a load event reports it.\<close>

record dim =
  dim_w :: number
  dim_h :: number

text \<open>\<^verbatim>\<open>FreePos | GridPos\<close>; the field \<^verbatim>\<open>mode\<close> is the constructor.\<close>

datatype pos =
  FreePos (pos_x: number) (pos_y: number)
| GridPos (pos_x: number) (pos_y: number) (pos_row: number)

datatype pos_mode = Free | Grid

fun mode :: "pos \<Rightarrow> pos_mode" where
  "mode (FreePos _ _) = Free"
| "mode (GridPos _ _ _) = Grid"

text \<open>The props \<^verbatim>\<open>DraggableMedia\<close> receives, with the React key of the element.\<close>

record media_node =
  node_key :: string
  node_item :: item
  node_scale :: number
  node_x :: number
  node_y :: number
  node_maxW :: number

section \<open>Scale\<close>

definition BASE_WIDTH :: number where
  "BASE_WIDTH = Fin 2560"

text \<open>
  \<open>size_w\<close> is \<^verbatim>\<open>size.w\<close>, the width of the container: 800 at first, then the
  \<^verbatim>\<open>clientWidth\<close> the browser measures, always a finite number.
\<close>

definition globalScale :: "number \<Rightarrow> number" where
  "globalScale size_w = Math_max (Fin 0.35) (Math_min (Fin 1.1) (size_w / BASE_WIDTH))"

definition padding :: "number \<Rightarrow> number" where
  "padding size_w = Fin 20 * globalScale size_w"

definition gapX :: "number \<Rightarrow> number" where
  "gapX size_w = Fin 40 * globalScale size_w"

definition gapY :: "number \<Rightarrow> number" where
  "gapY size_w = Fin 40 * globalScale size_w"

definition colW :: "number \<Rightarrow> number \<Rightarrow> number" where
  "colW size_w cols =
     Math_max (Fin 240 * globalScale size_w) (size_w / cols - gapX size_w)"



text \<open>
  \<^verbatim>\<open>internalScale\<close> of \<^verbatim>\<open>DraggableMedia\<close>, a function of \<^verbatim>\<open>baseW\<close>, \<^verbatim>\<open>baseH\<close>, the
  declared size of the item, the global scale \<open>scale\<close> and the width limit.
\<close>

definition internalScale :: "item \<Rightarrow> number \<Rightarrow> number \<Rightarrow> number \<Rightarrow> number \<Rightarrow> number" where
  "internalScale it scale maxW baseW baseH =
     (if falsy baseW \<or> falsy baseH then Fin 1
      else if isNumber (item_w it) then (the (item_w it) * scale) / baseW
      else if isNumber (item_h it) then (the (item_h it) * scale) / baseH
      else Math_min (Fin 1) ((maxW * scale) / baseW))"

text \<open>
  \<^verbatim>\<open>getRenderedHeight\<close> of the gallery; \<open>gs\<close> is the global scale it closes over, \<open>natSize\<close> (the source's \<^verbatim>\<open>nat\<close>) the
  registry entry of the item (\<open>None\<close> for \<^verbatim>\<open>undefined\<close>).
\<close>

definition getRenderedHeight :: "number \<Rightarrow> number \<Rightarrow> item \<Rightarrow> dim option \<Rightarrow> number" where
  "getRenderedHeight gs maxW it natSize =
     (case natSize of
        None \<Rightarrow> Fin 0
      | Some d \<Rightarrow>
          (let natW = dim_w d;
               natH = dim_h d;
               internalScale =
                 (if isNumber (item_w it) then (the (item_w it) * gs) / natW
                  else if isNumber (item_h it) then (the (item_h it) * gs) / natH
                  else Math_min (Fin 1) ((maxW * gs) / natW))
           in natH * internalScale))"

section \<open>Positions\<close>

text \<open>The body of the callback of \<^verbatim>\<open>items.map\<close> in \<^verbatim>\<open>positions\<close>, at array index \<open>i\<close>.\<close>

definition position :: "number \<Rightarrow> number \<Rightarrow> item \<Rightarrow> nat \<Rightarrow> pos" where
  "position size_w cols it i =
     (if isNumber (item_x it) \<or> isNumber (item_y it) then
        FreePos (Math_round (nullish_zero (item_x it) * globalScale size_w))
                (Math_round (nullish_zero (item_y it) * globalScale size_w))
      else
        (let col = Fin (real i) mod cols;
             row = Math_floor (Fin (real i) / cols);
             x = Math_round (padding size_w + col * (colW size_w cols + gapX size_w));
             y = Math_round (padding size_w + row * gapY size_w)
         in GridPos x y row))"

definition positions :: "number \<Rightarrow> number \<Rightarrow> item list \<Rightarrow> pos list" where
  "positions size_w cols items =
     map (\<lambda>(it, i). position size_w cols it i) (zip items [0..<length items])"

section \<open>The natural-size registry\<close>

text \<open>
  The registry is a \<^verbatim>\<open>Map<string, {w, h}>\<close>. Its key is
  \<^verbatim>\<open>item.url || item.title || JSON.stringify(item)\<close>; an empty string is falsy. The serializer
  is the parameter \<open>json\<close>.
\<close>

definition keyOf :: "(item \<Rightarrow> string) \<Rightarrow> item \<Rightarrow> string" where
  "keyOf json it =
     (if url it \<noteq> [] then url it else if title it \<noteq> [] then title it else json it)"


section \<open>Canvas height\<close>

text \<open>
  The loop of the free branch over \<^verbatim>\<open>items[i]\<close> and \<^verbatim>\<open>positions[i]\<close>; the last argument is
  \<^verbatim>\<open>maxBottom\<close>.
\<close>

fun freeLoop ::
  "(item \<Rightarrow> string) \<Rightarrow> number \<Rightarrow> number \<Rightarrow> (string \<rightharpoonup> dim) \<Rightarrow> (item \<times> pos) list \<Rightarrow> number \<Rightarrow> number" where
  "freeLoop json gs maxW naturalSizes [] maxBottom = maxBottom"
| "freeLoop json gs maxW naturalSizes ((it, p) # rest) maxBottom =
     (let natSize = naturalSizes (keyOf json it);
          rh = getRenderedHeight gs maxW it natSize;
          labelPad = Fin 24;
          bottom = or_zero (pos_y p) + rh + labelPad
      in freeLoop json gs maxW naturalSizes rest
           (if js_gt bottom maxBottom then bottom else maxBottom))"

text \<open>
  \<^verbatim>\<open>rowHeights\<close> is a \<^verbatim>\<open>Map<number, number>\<close>: an association list in insertion order.
  \<^verbatim>\<open>set\<close> overwrites the value of a key already there and appends a new key.
\<close>

type_synonym row_map = "(number \<times> number) list"

fun map_get :: "row_map \<Rightarrow> number \<Rightarrow> number option" where
  "map_get [] k = None"
| "map_get ((k', v) # m) k = (if k' = k then Some v else map_get m k)"

fun map_set :: "row_map \<Rightarrow> number \<Rightarrow> number \<Rightarrow> row_map" where
  "map_set [] k v = [(k, v)]"
| "map_set ((k', v') # m) k v = (if k' = k then (k, v) # m else (k', v') # map_set m k v)"

definition map_keys :: "row_map \<Rightarrow> number list" where
  "map_keys m = map fst m"

fun gridLoop ::
  "(item \<Rightarrow> string) \<Rightarrow> number \<Rightarrow> number \<Rightarrow> (string \<rightharpoonup> dim) \<Rightarrow> (item \<times> pos) list \<Rightarrow> row_map \<Rightarrow> row_map" where
  "gridLoop json gs maxW naturalSizes [] rowHeights = rowHeights"
| "gridLoop json gs maxW naturalSizes ((it, p) # rest) rowHeights =
     (if mode p \<noteq> Grid then gridLoop json gs maxW naturalSizes rest rowHeights
      else
        (let natSize = naturalSizes (keyOf json it);
             rh = getRenderedHeight gs maxW it natSize;
             current = or_zero_opt (map_get rowHeights (pos_row p))
         in gridLoop json gs maxW naturalSizes rest
              (map_set rowHeights (pos_row p) (Math_max current rh))))"

text \<open>
  \<^verbatim>\<open>sort((a, b) => a - b)\<close> as a stable insertion sort: \<open>a\<close> goes behind \<open>b\<close> when the
  comparator is positive, and a comparator that returns NaN counts as 0.
\<close>

fun insert_row :: "number \<Rightarrow> number list \<Rightarrow> number list" where
  "insert_row a [] = [a]"
| "insert_row a (b # bs) = (if js_gt (a - b) (Fin 0) then b # insert_row a bs else a # b # bs)"

definition sort_rows :: "number list \<Rightarrow> number list" where
  "sort_rows xs = foldr insert_row xs []"

text \<open>
  The effect that sets \<^verbatim>\<open>size.h\<close>: the result is the height it passes to \<^verbatim>\<open>setSize\<close>.
\<close>

definition canvasHeight ::
  "(item \<Rightarrow> string) \<Rightarrow> number \<Rightarrow> number \<Rightarrow> number \<Rightarrow> (string \<rightharpoonup> dim) \<Rightarrow> item list \<Rightarrow> number" where
  "canvasHeight json size_w cols maxW naturalSizes items =
     (if length items = 0 then Fin 500
      else
        (let ps = positions size_w cols items;
             gs = globalScale size_w;
             anyFree = list_ex (\<lambda>p. mode p = Free) ps
         in if anyFree then
              (let maxBottom = freeLoop json gs maxW naturalSizes (zip items ps) (Fin 0)
               in Math_max (Fin 500) (Math_ceil (maxBottom + padding size_w)))
            else
              (let rowHeights = gridLoop json gs maxW naturalSizes (zip items ps) [];
                   rows = sort_rows (map_keys rowHeights);
                   sumHeights =
                     foldl (\<lambda>acc r. acc + or_zero_opt (map_get rowHeights r)) (Fin 0) rows;
                   totalGaps =
                     Math_max (Fin 0) (Fin (real (length rows)) - Fin 1) * gapY size_w;
                   labelPadPerRow = Fin (real (length rows)) * Fin 24
               in Math_max (Fin 500)
                    (Math_ceil
                       (padding size_w + sumHeights + totalGaps + labelPadPerRow
                          + padding size_w)))))"

section \<open>Media nodes\<close>

text \<open>The decimal digits of an array index, as a template literal prints it.\<close>

fun decimal :: "nat \<Rightarrow> string" where
  "decimal n =
     (if n < 10 then [''0123456789'' ! n]
      else decimal (n div 10) @ [''0123456789'' ! (n mod 10)])"

declare decimal.simps [simp del]

text \<open>The key of the element: \<^verbatim>\<open>`${item.title || item.url}-${i}`\<close>.\<close>

definition nodeKey :: "item \<Rightarrow> nat \<Rightarrow> string" where
  "nodeKey it i = (if title it \<noteq> [] then title it else url it) @ ''-'' @ decimal i"

definition mediaNodes :: "number \<Rightarrow> number \<Rightarrow> number \<Rightarrow> item list \<Rightarrow> media_node list" where
  "mediaNodes size_w cols maxW items =
     map (\<lambda>(it, i).
            \<lparr> node_key = nodeKey it i,
              node_item = it,
              node_scale = globalScale size_w,
              node_x = pos_x (positions size_w cols items ! i),
              node_y = pos_y (positions size_w cols items ! i),
              node_maxW = maxW \<rparr>)
         (zip items [0..<length items])"

section \<open>Definitions the properties are stated with\<close>

text \<open>The clamp of the specification: \<open>v\<close> limited to the interval from \<open>lo\<close> to \<open>hi\<close>.\<close>

definition clamp :: "real \<Rightarrow> real \<Rightarrow> real \<Rightarrow> real" where
  "clamp v lo hi = (if v < lo then lo else if hi < v then hi else v)"






text \<open>
  Items of the examples: only a title and a url, then with declared fields added by record
  update. None of them has both an empty url and an empty title, so the serializer of the
  examples is never called.
\<close>

definition plainItem :: "string \<Rightarrow> string \<Rightarrow> item" where
  "plainItem t u =
     \<lparr> title = t, url = u, item_type = None, item_x = None, item_y = None, item_w = None,
       item_h = None, autoplay = None, loop = None, muted = None, posterUrl = None \<rparr>"

definition exampleJson :: "item \<Rightarrow> string" where
  "exampleJson it = ''{}''"

text \<open>Every value of the row map is NaN or a non-negative number.\<close>

definition row_values_ok :: "row_map \<Rightarrow> bool" where
  "row_values_ok m = list_all (\<lambda>kv. snd kv = NaN \<or> js_ge (snd kv) (Fin 0)) m"








section \<open>The global scale\<close>

lemma globalScale_Fin: "globalScale (Fin W) = Fin (clamp (W / 2560) 0.35 1.1)"
  by (simp add: globalScale_def BASE_WIDTH_def js_arith clamp_def max_def min_def)

lemma clamp_bounds: "0.35 \<le> clamp v 0.35 1.1 \<and> clamp v 0.35 1.1 \<le> 1.1"
  by (simp add: clamp_def)

lemma globalScale_pos: "\<exists>g. globalScale (Fin W) = Fin g \<and> 0.35 \<le> g \<and> g \<le> 1.1"
  using clamp_bounds [of "W / 2560"] by (simp add: globalScale_Fin)

text \<open>
  C2. For every finite container width \<open>W\<close> the global scale is \<open>W / 2560\<close> clamped to the
  interval from 0.35 to 1.1; the widths 2560, 100 and 5000 give 1, 0.35 and 1.1.
\<close>

theorem globalScale_clamped:
  "globalScale (Fin W) = Fin (clamp (W / 2560) 0.35 1.1)
   \<and> js_ge (globalScale (Fin W)) (Fin 0.35) \<and> js_ge (Fin 1.1) (globalScale (Fin W))
   \<and> globalScale (Fin 2560) = Fin 1
   \<and> globalScale (Fin 100) = Fin 0.35
   \<and> globalScale (Fin 5000) = Fin 1.1"
  using clamp_bounds [of "W / 2560"]
  by (simp add: globalScale_Fin) (simp add: clamp_def)

section \<open>The effective scale of an item\<close>


section \<open>Positions\<close>









section \<open>The empty list\<close>

text \<open>
  C8. For the empty item list the effect sets the height 500, whatever the width, the
  columns and the registry are, and no media node is produced.
\<close>

theorem empty_list_height:
  "canvasHeight json size_w cols maxW naturalSizes [] = Fin 500
   \<and> mediaNodes size_w cols maxW [] = []"
  by (simp add: canvasHeight_def mediaNodes_def)

section \<open>Keys of the media nodes\<close>

lemma mediaNodes_keys:
  "map node_key (mediaNodes size_w cols maxW items) =
     map (\<lambda>(it, i). nodeKey it i) (zip items [0..<length items])"
  by (simp add: mediaNodes_def case_prod_beta comp_def)

text \<open>
  C9, as the code has it. The key of the media node of the item at index \<open>i\<close> is the title of
  the item, or its url when the title is empty, followed by a hyphen and \<open>i\<close>. It depends on
  the item and its index only, so rendering the same array again, at any width and with any
  registry, gives the same keys. The identity key (url, else title, else the serialized item)
  is the key of the natural-size registry.
\<close>

theorem node_key_title_index:
  assumes "i < length items"
  shows "node_key (mediaNodes size_w cols maxW items ! i) =
           (if title (items ! i) \<noteq> [] then title (items ! i) else url (items ! i))
             @ ''-'' @ decimal i
         \<and> node_item (mediaNodes size_w cols maxW items ! i) = items ! i
         \<and> map node_key (mediaNodes size_w cols maxW items) =
             map node_key (mediaNodes size_w' cols' maxW' items)"
  using assms by (simp add: mediaNodes_keys) (simp add: mediaNodes_def nodeKey_def)

theorem node_key_title_index_witness:
  "node_key (mediaNodes (Fin 800) (Fin 3) (Fin 480)
       [plainItem ''A'' ''a.png'', plainItem [] ''b.png''] ! 1) = ''b.png-1''
   \<and> node_key (mediaNodes (Fin 800) (Fin 3) (Fin 480)
       [plainItem ''A'' ''a.png'', plainItem [] ''b.png''] ! 0) = ''A-0''"
  using node_key_title_index [of 1 "[plainItem ''A'' ''a.png'', plainItem [] ''b.png'']"
      "Fin 800" "Fin 3" "Fin 480" "Fin 800" "Fin 3" "Fin 480"]
    node_key_title_index [of 0 "[plainItem ''A'' ''a.png'', plainItem [] ''b.png'']"
      "Fin 800" "Fin 3" "Fin 480" "Fin 800" "Fin 3" "Fin 480"]
  by (simp add: plainItem_def decimal.simps)

text \<open>
  C9 as stated fails: for the item with title \<open>A\<close> and url \<open>a.png\<close> at index 0 the key of the
  node is \<open>A-0\<close>, and the identity key is \<open>a.png\<close>.
\<close>

theorem node_key_not_identity_key:
  "node_key (mediaNodes (Fin 800) (Fin 3) (Fin 480) [plainItem ''A'' ''a.png''] ! 0) = ''A-0''
   \<and> keyOf exampleJson (plainItem ''A'' ''a.png'') = ''a.png''"
  by (simp add: mediaNodes_def nodeKey_def keyOf_def plainItem_def decimal.simps)

section \<open>The rendered height\<close>




section \<open>The canvas height is at least 500\<close>

lemma js_gt_nonneg: "js_gt b a \<Longrightarrow> js_ge a (Fin 0) \<Longrightarrow> js_ge b (Fin 0)"
  by (cases a; cases b) auto

lemma or_zero_nonneg: "v = NaN \<or> js_ge v (Fin 0) \<Longrightarrow> js_ge (or_zero v) (Fin 0)"
  by (cases v) (auto simp: or_zero_def)

lemma Math_max_nonneg:
  "js_ge c (Fin 0) \<Longrightarrow> Math_max c v = NaN \<or> js_ge (Math_max c v) (Fin 0)"
  by (cases c; cases v) auto

lemma js_add_nonneg: "js_ge a (Fin 0) \<Longrightarrow> js_ge b (Fin 0) \<Longrightarrow> js_ge (a + b) (Fin 0)"
  by (cases a; cases b) (auto simp: js_arith)

lemma max_500_ceil:
  "js_ge v (Fin 0) \<Longrightarrow> js_ge (Math_max (Fin 500) (Math_ceil (v + Fin p))) (Fin 500)"
  by (cases v) (auto simp: js_arith)

text \<open>\<^verbatim>\<open>maxBottom\<close> starts at 0 and only a larger bottom replaces it, so it is never NaN.\<close>

lemma freeLoop_nonneg:
  "js_ge acc (Fin 0) \<Longrightarrow> js_ge (freeLoop json gs maxW naturalSizes zs acc) (Fin 0)"
proof (induction zs arbitrary: acc)
  case Nil
  then show ?case by simp
next
  case (Cons z zs)
  obtain it p where z: "z = (it, p)" by (cases z)
  show ?case
    unfolding z freeLoop.simps Let_def
    by (rule Cons.IH) (auto intro: js_gt_nonneg Cons.prems)
qed

text \<open>A row height is NaN or non-negative, and \<^verbatim>\<open>|| 0\<close> reads a NaN as 0.\<close>

lemma map_get_ok:
  "row_values_ok m \<Longrightarrow> js_ge (or_zero_opt (map_get m k)) (Fin 0)"
  by (induction m) (auto simp: row_values_ok_def or_zero_nonneg)

lemma map_set_ok:
  "row_values_ok m \<Longrightarrow> v = NaN \<or> js_ge v (Fin 0) \<Longrightarrow> row_values_ok (map_set m k v)"
  by (induction m) (auto simp: row_values_ok_def)

lemma gridLoop_ok:
  "row_values_ok m \<Longrightarrow> row_values_ok (gridLoop json gs maxW naturalSizes zs m)"
proof (induction zs arbitrary: m)
  case Nil
  then show ?case by simp
next
  case (Cons z zs)
  obtain it p where z: "z = (it, p)" by (cases z)
  show ?case
    unfolding z gridLoop.simps Let_def
    using Cons.prems
    by (auto intro!: Cons.IH map_set_ok Math_max_nonneg map_get_ok)
qed

lemma sumHeights_nonneg:
  "row_values_ok m \<Longrightarrow> js_ge acc (Fin 0) \<Longrightarrow>
     js_ge (foldl (\<lambda>acc r. acc + or_zero_opt (map_get m r)) acc rows) (Fin 0)"
  by (induction rows arbitrary: acc) (auto intro: js_add_nonneg map_get_ok)

lemma grid_total_ge_500:
  assumes "js_ge s (Fin 0)" and "0 \<le> p"
  shows "js_ge (Math_max (Fin 500)
           (Math_ceil (Fin p + s + Math_max (Fin 0) (Fin n - Fin 1) * Fin g + Fin n * Fin 24 + Fin p)))
         (Fin 500)"
  using assms by (cases s) (auto simp: js_arith)

text \<open>
  C1. For every item list, every finite container width, every number of columns, every
  width limit and every state of the registry, the height the effect sets is at least 500.
  The items, the columns, the limit and the registry entries may hold any number, NaN and
  the infinities included.
\<close>

theorem canvas_height_ge_500:
  "js_ge (canvasHeight json (Fin W) cols maxW naturalSizes items) (Fin 500)"
proof -
  obtain g where g: "globalScale (Fin W) = Fin g" "0.35 \<le> g"
    using globalScale_pos by blast
  have pad: "padding (Fin W) = Fin (20 * g)"
    by (simp add: padding_def g js_arith)
  have gap: "gapY (Fin W) = Fin (40 * g)"
    by (simp add: gapY_def g js_arith)
  have free: "js_ge (Math_max (Fin 500)
        (Math_ceil (freeLoop json (Fin g) maxW naturalSizes zs (Fin 0) + Fin (20 * g)))) (Fin 500)"
    for zs
    by (rule max_500_ceil) (simp add: freeLoop_nonneg)
  have grid: "js_ge (Math_max (Fin 500)
        (Math_ceil (Fin (20 * g)
           + foldl (\<lambda>acc r. acc + or_zero_opt (map_get (gridLoop json (Fin g) maxW naturalSizes zs []) r))
               (Fin 0) rows
           + Math_max (Fin 0) (Fin n - Fin 1) * Fin (40 * g) + Fin n * Fin 24 + Fin (20 * g))))
        (Fin 500)" for zs rows n
    using g(2)
    by (intro grid_total_ge_500 sumHeights_nonneg gridLoop_ok) (simp_all add: row_values_ok_def)
  show ?thesis
    by (simp add: canvasHeight_def Let_def g pad gap free grid)
qed

section \<open>Free-mode sizing\<close>


lemma Math_max_NInf [simp]: "Math_max a NInf = a"
  by (cases a) simp_all
















section \<open>Grid-mode sizing\<close>





subsection \<open>The row map\<close>






subsection \<open>The sum over the rows\<close>













end
